theory Spec2Isabelle
  imports Main "HOL-Library.Word"
begin

section \<open>QXmppStream: the connection core of the XMPP stream\<close>

text \<open>
  A shallow embedding of \<^verbatim>\<open>src/base/QXmppStream.cpp\<close>. Every member function of
  \<^verbatim>\<open>QXmppStream\<close> becomes a function that takes the stream and returns the stream it
  leaves behind (together with the returned value, where the C++ function returns one).

  What the file uses but does not define (Qt's socket, DOM parser, regular expressions
  and character classes, the two stream management frames of
  \<^verbatim>\<open>QXmppStreamManagement_p.h\<close>, and the pure virtual hooks that a subclass implements)
  is collected in one record of collaborators, \<open>env\<close>, which every function receives.
  The theorems hold for every such record.
\<close>

subsection \<open>Data\<close>

text \<open>\<^verbatim>\<open>unsigned\<close>: 32 bits, \<^verbatim>\<open>++\<close> wraps around, comparison is unsigned.\<close>

type_synonym uint = "32 word"

text \<open>\<^verbatim>\<open>QAbstractSocket::SocketState\<close>.\<close>

datatype SocketState =
  UnconnectedState | HostLookupState | ConnectingState | ConnectedState
  | BoundState | ListeningState | ClosingState

text \<open>\<^verbatim>\<open>QXmppLogger::MessageType\<close>, the kinds this file emits.\<close>

datatype MessageType =
  DebugMessage | InformationMessage | WarningMessage | ReceivedMessage | SentMessage

text \<open>
  A \<^verbatim>\<open>QDomElement\<close>: the null element (\<^verbatim>\<open>QDomElement()\<close>, whose tag name is empty) or an
  element with its qualified tag name, namespace, attributes and child elements in
  document order.
\<close>

datatype QDomElement =
  NullElement
  | Element (tagName: string) (namespaceURI: string)
      (attributes: "(string \<times> string) list") (childElements: "QDomElement list")
where
  "tagName NullElement = []"
| "namespaceURI NullElement = []"
| "attributes NullElement = []"
| "childElements NullElement = []"

text \<open>
  What \<^verbatim>\<open>sendPacket\<close> needs of a \<^verbatim>\<open>QXmppStanza\<close>: its serialisation \<^verbatim>\<open>toXml\<close> and
  \<^verbatim>\<open>isXmppStanza()\<close>, true for message, presence and iq stanzas.
\<close>

record QXmppStanza =
  toXml :: string
  isXmppStanza :: bool

text \<open>
  \<^verbatim>\<open>QMap<unsigned, QString>\<close>: the entries in ascending key order, one entry per key.
  \<open>QMap_assign k v m\<close> is \<^verbatim>\<open>m[k] = v\<close>: it overwrites the entry of \<open>k\<close> or inserts a new
  one at its place in the order.
\<close>

type_synonym QMap = "(uint \<times> string) list"

fun QMap_assign :: "uint \<Rightarrow> string \<Rightarrow> QMap \<Rightarrow> QMap" where
  "QMap_assign k v [] = [(k, v)]"
| "QMap_assign k v (e # m) =
     (if fst e = k then (k, v) # m
      else if k < fst e then (k, v) # e # m
      else e # QMap_assign k v m)"

text \<open>
  \<^verbatim>\<open>QXmppStreamPrivate\<close>, field by field; \<open>socket\<close> is \<open>None\<close> for the null pointer and
  holds the state of the socket object otherwise. \<open>logMessages\<close> is not a field of the
  C++ class: it collects, in order, the \<^verbatim>\<open>logMessage\<close> signals that \<^verbatim>\<open>logSent\<close>,
  \<^verbatim>\<open>logReceived\<close>, \<^verbatim>\<open>info\<close> and \<^verbatim>\<open>debug\<close> emit.
\<close>

record 'k QXmppStream =
  dataBuffer :: string
  socket :: "'k option"
  streamStart :: string
  streamManagementEnabled :: bool
  unacknowledgedStanzas :: QMap
  lastOutgoingSequenceNumber :: uint
  lastIncomingSequenceNumber :: uint
  logMessages :: "(MessageType \<times> string) list"

text \<open>
  The collaborators.
  \<^item> \<open>handleStanza\<close>, \<open>handleStream\<close>: the pure virtual hooks of the subclass, which may
    call back into the stream.
  \<^item> \<open>sock_state\<close>, \<open>sock_sendTextMessage\<close>, \<open>sock_flush\<close>, \<open>sock_disconnectFromHost\<close>,
    \<open>sock_peer\<close>: the \<^verbatim>\<open>QXmppSocket\<close> (\<open>sock_peer\<close> gives the peer address and port as
    text).
  \<^item> \<open>isSpace\<close>: \<^verbatim>\<open>QChar::isSpace\<close>, which \<^verbatim>\<open>QString::trimmed\<close> strips.
  \<^item> \<open>startStreamRegex\<close>: the search of the start pattern in a text, \<open>Some\<close> of the
    matched text \<^verbatim>\<open>cap(0)\<close> when the text contains a match.
  \<^item> \<open>setContent\<close>: \<^verbatim>\<open>QDomDocument::setContent\<close> with namespace processing, \<open>Some\<close> of
    the document element when the text is a well-formed document.
  \<^item> \<open>isStreamManagementAck\<close>, \<open>isStreamManagementReq\<close>, \<open>ackSeqNo\<close> (parse, then
    \<^verbatim>\<open>seqNo()\<close>), \<open>ackToXml\<close>, \<open>reqToXml\<close>: the frames of \<^verbatim>\<open>QXmppStreamManagement_p.h\<close>.
\<close>

record 'k env =
  handleStanza :: "QDomElement \<Rightarrow> 'k QXmppStream \<Rightarrow> 'k QXmppStream"
  handleStream :: "QDomElement \<Rightarrow> 'k QXmppStream \<Rightarrow> 'k QXmppStream"
  sock_state :: "'k \<Rightarrow> SocketState"
  sock_sendTextMessage :: "'k \<Rightarrow> string \<Rightarrow> bool \<times> 'k"
  sock_flush :: "'k \<Rightarrow> 'k"
  sock_disconnectFromHost :: "'k \<Rightarrow> 'k"
  sock_peer :: "'k \<Rightarrow> string \<times> string"
  isSpace :: "char \<Rightarrow> bool"
  startStreamRegex :: "string \<Rightarrow> string option"
  setContent :: "string \<Rightarrow> QDomElement option"
  isStreamManagementAck :: "QDomElement \<Rightarrow> bool"
  isStreamManagementReq :: "QDomElement \<Rightarrow> bool"
  ackSeqNo :: "QDomElement \<Rightarrow> uint"
  ackToXml :: "uint \<Rightarrow> string"
  reqToXml :: string

text \<open>The constructor of \<^verbatim>\<open>QXmppStreamPrivate\<close>.\<close>

definition QXmppStreamPrivate :: "'k QXmppStream" where
  "QXmppStreamPrivate =
     \<lparr> dataBuffer = [], socket = None, streamStart = [],
       streamManagementEnabled = False, unacknowledgedStanzas = [],
       lastOutgoingSequenceNumber = 0, lastIncomingSequenceNumber = 0,
       logMessages = [] \<rparr>"

definition streamRootElementEnd :: string where
  "streamRootElementEnd = ''</stream:stream>''"

subsection \<open>Logging\<close>

definition emitLog :: "MessageType \<Rightarrow> string \<Rightarrow> 'k QXmppStream \<Rightarrow> 'k QXmppStream" where
  "emitLog ty text s = s\<lparr>logMessages := logMessages s @ [(ty, text)]\<rparr>"

definition logSent :: "string \<Rightarrow> 'k QXmppStream \<Rightarrow> 'k QXmppStream" where
  "logSent text s = emitLog SentMessage text s"

definition logReceived :: "string \<Rightarrow> 'k QXmppStream \<Rightarrow> 'k QXmppStream" where
  "logReceived text s = emitLog ReceivedMessage text s"

subsection \<open>Sending\<close>

text \<open>
  \<^verbatim>\<open>sendData(const QString &)\<close>; the \<^verbatim>\<open>QByteArray\<close> overload converts and calls it, which
  is the identity on the model's strings.
\<close>

definition sendData :: "'k env \<Rightarrow> string \<Rightarrow> 'k QXmppStream \<Rightarrow> bool \<times> 'k QXmppStream" where
  "sendData env text s =
     (let s1 = logSent text s in
      case socket s1 of
        None \<Rightarrow> (False, s1)
      | Some k \<Rightarrow>
          if sock_state env k \<noteq> ConnectedState then (False, s1)
          else (let r = sock_sendTextMessage env k text
                in (fst r, s1\<lparr>socket := Some (snd r)\<rparr>)))"

definition sendAcknowledgement :: "'k env \<Rightarrow> 'k QXmppStream \<Rightarrow> 'k QXmppStream" where
  "sendAcknowledgement env s =
     (if \<not> streamManagementEnabled s then s
      else snd (sendData env (ackToXml env (lastIncomingSequenceNumber s)) s))"

definition sendAcknowledgementRequest :: "'k env \<Rightarrow> 'k QXmppStream \<Rightarrow> 'k QXmppStream" where
  "sendAcknowledgementRequest env s =
     (if \<not> streamManagementEnabled s then s
      else snd (sendData env (reqToXml env) s))"

definition sendPacket :: "'k env \<Rightarrow> QXmppStanza \<Rightarrow> 'k QXmppStream \<Rightarrow> bool \<times> 'k QXmppStream" where
  "sendPacket env packet s =
     (let text = toXml packet;
          s1 = (if isXmppStanza packet \<and> streamManagementEnabled s
                then s\<lparr>lastOutgoingSequenceNumber := lastOutgoingSequenceNumber s + 1,
                       unacknowledgedStanzas :=
                         QMap_assign (lastOutgoingSequenceNumber s + 1) text
                           (unacknowledgedStanzas s)\<rparr>
                else s);
          r = sendData env text s1;
          s2 = (if isXmppStanza packet then sendAcknowledgementRequest env (snd r)
                else snd r)
      in (fst r, s2))"

subsection \<open>Connection lifecycle\<close>

definition disconnectFromHost :: "'k env \<Rightarrow> 'k QXmppStream \<Rightarrow> 'k QXmppStream" where
  "disconnectFromHost env s =
     (let s1 = s\<lparr>streamManagementEnabled := False\<rparr> in
      case socket s1 of
        None \<Rightarrow> s1
      | Some k \<Rightarrow>
          (let s2 = (if sock_state env k = ConnectedState
                     then (let s' = snd (sendData env streamRootElementEnd s1)
                           in s'\<lparr>socket := map_option (sock_flush env) (socket s')\<rparr>)
                     else s1)
           in s2\<lparr>socket := map_option (sock_disconnectFromHost env) (socket s2)\<rparr>))"

definition handleStart :: "'k QXmppStream \<Rightarrow> 'k QXmppStream" where
  "handleStart s =
     s\<lparr>streamManagementEnabled := False, dataBuffer := [], streamStart := []\<rparr>"

text \<open>
  The slots \<^verbatim>\<open>_q_socketConnected\<close> and \<^verbatim>\<open>_q_socketEncrypted\<close>, named here without the
  leading underscore. \<^verbatim>\<open>_q_socketConnected\<close> reads the peer of \<^verbatim>\<open>d->socket\<close> for its log
  line without a null check: the result is \<open>None\<close> when there is no socket to read.
\<close>

definition q_socketConnected :: "'k env \<Rightarrow> 'k QXmppStream \<Rightarrow> 'k QXmppStream option" where
  "q_socketConnected env s =
     (case socket s of
        None \<Rightarrow> None
      | Some k \<Rightarrow>
          Some (handleStart
            (emitLog InformationMessage
               (''Socket connected to '' @ fst (sock_peer env k) @ '' '' @ snd (sock_peer env k))
               s)))"

definition q_socketEncrypted :: "'k QXmppStream \<Rightarrow> 'k QXmppStream" where
  "q_socketEncrypted s = handleStart (emitLog DebugMessage ''Socket encrypted'' s)"

subsection \<open>Stream management\<close>

text \<open>The loop of \<^verbatim>\<open>setAcknowledgedSequenceNumber\<close> over the entries of the map.\<close>

fun eraseAcknowledged :: "uint \<Rightarrow> QMap \<Rightarrow> QMap" where
  "eraseAcknowledged sequenceNumber [] = []"
| "eraseAcknowledged sequenceNumber (it # rest) =
     (if fst it \<le> sequenceNumber then eraseAcknowledged sequenceNumber rest
      else it # eraseAcknowledged sequenceNumber rest)"

definition setAcknowledgedSequenceNumber :: "uint \<Rightarrow> 'k QXmppStream \<Rightarrow> 'k QXmppStream" where
  "setAcknowledgedSequenceNumber sequenceNumber s =
     s\<lparr>unacknowledgedStanzas := eraseAcknowledged sequenceNumber (unacknowledgedStanzas s)\<rparr>"

definition handleAcknowledgement :: "'k env \<Rightarrow> QDomElement \<Rightarrow> 'k QXmppStream \<Rightarrow> 'k QXmppStream" where
  "handleAcknowledgement env element s =
     (if \<not> streamManagementEnabled s then s
      else setAcknowledgedSequenceNumber (ackSeqNo env element) s)"

text \<open>
  The two resend loops of \<^verbatim>\<open>enableStreamManagement\<close>: over a copy of the old map with
  renumbering, and over the map itself without.
\<close>

fun resendRenumbered :: "'k env \<Rightarrow> QMap \<Rightarrow> 'k QXmppStream \<Rightarrow> 'k QXmppStream" where
  "resendRenumbered env [] s = s"
| "resendRenumbered env (it # rest) s =
     resendRenumbered env rest
       (snd (sendData env (snd it)
          (s\<lparr>lastOutgoingSequenceNumber := lastOutgoingSequenceNumber s + 1,
             unacknowledgedStanzas :=
               QMap_assign (lastOutgoingSequenceNumber s + 1) (snd it)
                 (unacknowledgedStanzas s)\<rparr>)))"

fun resendUnchanged :: "'k env \<Rightarrow> QMap \<Rightarrow> 'k QXmppStream \<Rightarrow> 'k QXmppStream" where
  "resendUnchanged env [] s = s"
| "resendUnchanged env (it # rest) s =
     resendUnchanged env rest (snd (sendData env (snd it) s))"

definition enableStreamManagement :: "'k env \<Rightarrow> bool \<Rightarrow> 'k QXmppStream \<Rightarrow> 'k QXmppStream" where
  "enableStreamManagement env resetSequenceNumber s =
     (let s1 = s\<lparr>streamManagementEnabled := True\<rparr> in
      if resetSequenceNumber then
        (let s2 = s1\<lparr>lastOutgoingSequenceNumber := 0, lastIncomingSequenceNumber := 0\<rparr> in
         if unacknowledgedStanzas s2 \<noteq> [] then
           (let oldUnackedStanzas = unacknowledgedStanzas s2;
                s3 = s2\<lparr>unacknowledgedStanzas := []\<rparr>
            in sendAcknowledgementRequest env (resendRenumbered env oldUnackedStanzas s3))
         else s2)
      else
        (if unacknowledgedStanzas s1 \<noteq> [] then
           sendAcknowledgementRequest env
             (resendUnchanged env (unacknowledgedStanzas s1) s1)
         else s1))"

subsection \<open>Receiving\<close>

text \<open>\<^verbatim>\<open>QString::trimmed\<close>: strips the white space at both ends.\<close>

definition trimmed :: "'k env \<Rightarrow> string \<Rightarrow> string" where
  "trimmed env text = rev (dropWhile (isSpace env) (rev (dropWhile (isSpace env) text)))"

text \<open>
  \<^verbatim>\<open>contains(endStreamRegex)\<close> for the pattern \<^verbatim>\<open></stream:stream>$\<close>: the text ends with
  the closing tag.
\<close>

definition endStreamRegex :: "string \<Rightarrow> bool" where
  "endStreamRegex text =
     (length streamRootElementEnd \<le> length text \<and>
      drop (length text - length streamRootElementEnd) text = streamRootElementEnd)"

text \<open>The body of the loop over the children of the document element.\<close>

definition processStanza :: "'k env \<Rightarrow> QDomElement \<Rightarrow> 'k QXmppStream \<Rightarrow> 'k QXmppStream" where
  "processStanza env nodeRecv s =
     (if isStreamManagementAck env nodeRecv then handleAcknowledgement env nodeRecv s
      else if isStreamManagementReq env nodeRecv then sendAcknowledgement env s
      else (let s' = handleStanza env nodeRecv s in
            if tagName nodeRecv = ''message'' \<or> tagName nodeRecv = ''presence'' \<or>
               tagName nodeRecv = ''iq''
            then s'\<lparr>lastIncomingSequenceNumber := lastIncomingSequenceNumber s' + 1\<rparr>
            else s'))"

fun processStanzas :: "'k env \<Rightarrow> QDomElement list \<Rightarrow> 'k QXmppStream \<Rightarrow> 'k QXmppStream" where
  "processStanzas env [] s = s"
| "processStanzas env (nodeRecv # siblings) s =
     processStanzas env siblings (processStanza env nodeRecv s)"

text \<open>
  The candidate document of \<^verbatim>\<open>handleTextMessageReceived\<close>, built from the buffer without
  altering the stream: \<open>startMatch\<close> is the match of the start pattern, searched only
  while no stream start is captured; \<open>completeXml\<close> is the buffer with the captured
  stream start in front unless the buffer brings its own, and the closing tag behind
  unless the buffer ends with it.
\<close>

definition startMatch :: "'k env \<Rightarrow> 'k QXmppStream \<Rightarrow> string option" where
  "startMatch env s =
     (if streamStart s = [] then startStreamRegex env (dataBuffer s) else None)"

definition completeXml :: "'k env \<Rightarrow> 'k QXmppStream \<Rightarrow> string" where
  "completeXml env s =
     (let xml = (case startMatch env s of
                   Some cap0 \<Rightarrow> dataBuffer s
                 | None \<Rightarrow> streamStart s @ dataBuffer s)
      in if endStreamRegex (dataBuffer s) then xml else xml @ streamRootElementEnd)"

definition handleTextMessageReceived :: "'k env \<Rightarrow> string \<Rightarrow> 'k QXmppStream \<Rightarrow> 'k QXmppStream" where
  "handleTextMessageReceived env text s0 =
     (let s = s0\<lparr>dataBuffer := dataBuffer s0 @ text\<rparr> in
      if dataBuffer s \<noteq> [] \<and> trimmed env (dataBuffer s) = [] then
        handleStanza env NullElement (s\<lparr>dataBuffer := []\<rparr>)
      else
        (case setContent env (completeXml env s) of
           None \<Rightarrow> s
         | Some documentElement \<Rightarrow>
             (let s1 = (logReceived text s)\<lparr>dataBuffer := []\<rparr>;
                  s2 = (case startMatch env s of
                          Some cap0 \<Rightarrow>
                            handleStream env documentElement (s1\<lparr>streamStart := cap0\<rparr>)
                        | None \<Rightarrow> s1);
                  s3 = processStanzas env (childElements documentElement) s2
              in if endStreamRegex (dataBuffer s) then disconnectFromHost env s3 else s3)))"

subsection \<open>Callers\<close>

text \<open>
  A caller that sends the packets one after the other: the stream after each call.
  \<open>numbersFrom k n\<close> lists the \<open>n\<close> values that \<^verbatim>\<open>++\<close> gives a counter standing at \<open>k\<close>, and
  \<open>registered k ps m\<close> is the map \<open>m\<close> after the texts of \<open>ps\<close> were assigned under them.
\<close>

fun sendPackets :: "'k env \<Rightarrow> QXmppStanza list \<Rightarrow> 'k QXmppStream \<Rightarrow> 'k QXmppStream list" where
  "sendPackets env [] s = []"
| "sendPackets env (packet # packets) s =
     snd (sendPacket env packet s) # sendPackets env packets (snd (sendPacket env packet s))"

fun numbersFrom :: "uint \<Rightarrow> nat \<Rightarrow> uint list" where
  "numbersFrom k 0 = []"
| "numbersFrom k (Suc n) = (k + 1) # numbersFrom (k + 1) n"

fun registered :: "uint \<Rightarrow> QXmppStanza list \<Rightarrow> QMap \<Rightarrow> QMap" where
  "registered k [] m = m"
| "registered k (p # ps) m = registered (k + 1) ps (QMap_assign (k + 1) (toXml p) m)"

subsection \<open>A sample environment\<close>

text \<open>
  One concrete choice of the collaborators, on which the functions above can be run: a
  socket that is its connection state and the texts written to it, hooks that log the
  element they are called with, ASCII white space, and a parser that knows one document.
\<close>

type_synonym sampleSocket = "SocketState \<times> string list"

definition sampleDocument :: "string \<Rightarrow> QDomElement option" where
  "sampleDocument xml =
     (if xml = ''<stream:stream><message/><r/><features/></stream:stream>''
      then Some (Element ''stream:stream'' ''http://etherx.jabber.org/streams'' []
                  [Element ''message'' ''jabber:client'' [] [],
                   Element ''r'' ''urn:xmpp:sm:3'' [] [],
                   Element ''features'' ''jabber:client'' [] []])
      else None)"

definition sampleEnv :: "sampleSocket env" where
  "sampleEnv =
     \<lparr> handleStanza = (\<lambda>el. emitLog DebugMessage (''handleStanza:'' @ tagName el)),
       handleStream = (\<lambda>el. emitLog DebugMessage (''handleStream:'' @ tagName el)),
       sock_state = fst,
       sock_sendTextMessage = (\<lambda>k text. (True, (fst k, snd k @ [text]))),
       sock_flush = (\<lambda>k. k),
       sock_disconnectFromHost = (\<lambda>k. (UnconnectedState, snd k)),
       sock_peer = (\<lambda>k. (''localhost'', ''5222'')),
       isSpace = (\<lambda>c. c \<in> set [CHR '' '', CHR 0x09, CHR 0x0A, CHR 0x0B, CHR 0x0C, CHR 0x0D]),
       startStreamRegex =
         (\<lambda>text. if take 15 text = ''<stream:stream>'' then Some ''<stream:stream>'' else None),
       setContent = sampleDocument,
       isStreamManagementAck = (\<lambda>el. tagName el = ''a'' \<and> namespaceURI el = ''urn:xmpp:sm:3''),
       isStreamManagementReq = (\<lambda>el. tagName el = ''r'' \<and> namespaceURI el = ''urn:xmpp:sm:3''),
       ackSeqNo = (\<lambda>el. case map_of (attributes el) ''h'' of
                         None \<Rightarrow> 0
                       | Some h \<Rightarrow> foldl (\<lambda>n c. 10 * n + of_nat (of_char c - 48)) 0 h),
       ackToXml = (\<lambda>h. ''<a/>''),
       reqToXml = ''<r/>'' \<rparr>"

definition sampleStream :: "sampleSocket QXmppStream" where
  "sampleStream =
     \<lparr> dataBuffer = ''<presence'', socket = Some (ConnectedState, []),
       streamStart = ''<stream:stream>'', streamManagementEnabled = True,
       unacknowledgedStanzas = [(3, ''A''), (5, ''B''), (7, ''C'')],
       lastOutgoingSequenceNumber = 7, lastIncomingSequenceNumber = 4,
       logMessages = [] \<rparr>"

section \<open>Properties\<close>

text \<open>The definitions that running the model on the sample environment unfolds.\<close>

lemmas run_defs =
  sampleEnv_def sampleStream_def sampleDocument_def emitLog_def logSent_def logReceived_def
  sendData_def sendAcknowledgement_def sendAcknowledgementRequest_def sendPacket_def
  disconnectFromHost_def handleStart_def q_socketConnected_def q_socketEncrypted_def
  setAcknowledgedSequenceNumber_def handleAcknowledgement_def enableStreamManagement_def
  trimmed_def endStreamRegex_def streamRootElementEnd_def processStanza_def startMatch_def
  completeXml_def handleTextMessageReceived_def Let_def

subsection \<open>What sending and disconnecting leave unchanged\<close>

lemma sendData_frame:
  "dataBuffer (snd (sendData env t s)) = dataBuffer s"
  "streamStart (snd (sendData env t s)) = streamStart s"
  "streamManagementEnabled (snd (sendData env t s)) = streamManagementEnabled s"
  "unacknowledgedStanzas (snd (sendData env t s)) = unacknowledgedStanzas s"
  "lastOutgoingSequenceNumber (snd (sendData env t s)) = lastOutgoingSequenceNumber s"
  "lastIncomingSequenceNumber (snd (sendData env t s)) = lastIncomingSequenceNumber s"
  "logMessages (snd (sendData env t s)) = logMessages s @ [(SentMessage, t)]"
  by (simp_all add: sendData_def logSent_def emitLog_def Let_def split: option.split)

lemma sendData_result:
  "fst (sendData env t s) =
     (case socket s of
        None \<Rightarrow> False
      | Some k \<Rightarrow> sock_state env k = ConnectedState \<and> fst (sock_sendTextMessage env k t))"
  by (simp add: sendData_def logSent_def emitLog_def Let_def split: option.split)

lemma sendAcknowledgementRequest_frame:
  "dataBuffer (sendAcknowledgementRequest env s) = dataBuffer s"
  "streamStart (sendAcknowledgementRequest env s) = streamStart s"
  "streamManagementEnabled (sendAcknowledgementRequest env s) = streamManagementEnabled s"
  "unacknowledgedStanzas (sendAcknowledgementRequest env s) = unacknowledgedStanzas s"
  "lastOutgoingSequenceNumber (sendAcknowledgementRequest env s) = lastOutgoingSequenceNumber s"
  "lastIncomingSequenceNumber (sendAcknowledgementRequest env s) = lastIncomingSequenceNumber s"
  by (simp_all add: sendAcknowledgementRequest_def sendData_frame)

lemma sendAcknowledgementRequest_log:
  "logMessages (sendAcknowledgementRequest env s) =
     (if streamManagementEnabled s then logMessages s @ [(SentMessage, reqToXml env)]
      else logMessages s)"
  by (simp add: sendAcknowledgementRequest_def sendData_frame)

lemma sendAcknowledgement_frame:
  "dataBuffer (sendAcknowledgement env s) = dataBuffer s"
  "streamStart (sendAcknowledgement env s) = streamStart s"
  "streamManagementEnabled (sendAcknowledgement env s) = streamManagementEnabled s"
  "unacknowledgedStanzas (sendAcknowledgement env s) = unacknowledgedStanzas s"
  "lastOutgoingSequenceNumber (sendAcknowledgement env s) = lastOutgoingSequenceNumber s"
  "lastIncomingSequenceNumber (sendAcknowledgement env s) = lastIncomingSequenceNumber s"
  by (simp_all add: sendAcknowledgement_def sendData_frame)

lemma sendPacket_frame:
  "dataBuffer (snd (sendPacket env p s)) = dataBuffer s"
  "streamStart (snd (sendPacket env p s)) = streamStart s"
  "streamManagementEnabled (snd (sendPacket env p s)) = streamManagementEnabled s"
  "lastIncomingSequenceNumber (snd (sendPacket env p s)) = lastIncomingSequenceNumber s"
  by (simp_all add: sendPacket_def Let_def sendData_frame sendAcknowledgementRequest_frame)

lemma sendPacket_register:
  "lastOutgoingSequenceNumber (snd (sendPacket env p s)) =
     (if isXmppStanza p \<and> streamManagementEnabled s
      then lastOutgoingSequenceNumber s + 1 else lastOutgoingSequenceNumber s)"
  "unacknowledgedStanzas (snd (sendPacket env p s)) =
     (if isXmppStanza p \<and> streamManagementEnabled s
      then QMap_assign (lastOutgoingSequenceNumber s + 1) (toXml p) (unacknowledgedStanzas s)
      else unacknowledgedStanzas s)"
  by (simp_all add: sendPacket_def Let_def sendData_frame sendAcknowledgementRequest_frame)

lemma disconnectFromHost_frame:
  "dataBuffer (disconnectFromHost env s) = dataBuffer s"
  "streamStart (disconnectFromHost env s) = streamStart s"
  "streamManagementEnabled (disconnectFromHost env s) = False"
  "unacknowledgedStanzas (disconnectFromHost env s) = unacknowledgedStanzas s"
  "lastOutgoingSequenceNumber (disconnectFromHost env s) = lastOutgoingSequenceNumber s"
  "lastIncomingSequenceNumber (disconnectFromHost env s) = lastIncomingSequenceNumber s"
  by (simp_all add: disconnectFromHost_def Let_def sendData_frame split: option.split)

subsection \<open>The map of unacknowledged stanzas\<close>

lemma QMap_assign_lookup: "map_of (QMap_assign k v m) k = Some v"
  by (induction m) auto

lemma eraseAcknowledged_filter:
  "eraseAcknowledged n m = filter (\<lambda>e. n < fst e) m"
  by (induction m) (auto simp: not_le)

subsection \<open>Enabling stream management\<close>

lemma resendUnchanged_frame:
  "dataBuffer (resendUnchanged env m s) = dataBuffer s"
  "streamStart (resendUnchanged env m s) = streamStart s"
  "streamManagementEnabled (resendUnchanged env m s) = streamManagementEnabled s"
  "unacknowledgedStanzas (resendUnchanged env m s) = unacknowledgedStanzas s"
  "lastOutgoingSequenceNumber (resendUnchanged env m s) = lastOutgoingSequenceNumber s"
  "lastIncomingSequenceNumber (resendUnchanged env m s) = lastIncomingSequenceNumber s"
  by (induction m arbitrary: s; simp add: sendData_frame)+

lemma resendUnchanged_log:
  "logMessages (resendUnchanged env m s) = logMessages s @ map (\<lambda>e. (SentMessage, snd e)) m"
  by (induction m arbitrary: s) (simp_all add: sendData_frame)

lemma resendRenumbered_frame:
  "dataBuffer (resendRenumbered env m s) = dataBuffer s"
  "streamStart (resendRenumbered env m s) = streamStart s"
  "streamManagementEnabled (resendRenumbered env m s) = streamManagementEnabled s"
  "lastIncomingSequenceNumber (resendRenumbered env m s) = lastIncomingSequenceNumber s"
  by (induction m arbitrary: s; simp add: sendData_frame)+

lemma resendRenumbered_log:
  "logMessages (resendRenumbered env m s) = logMessages s @ map (\<lambda>e. (SentMessage, snd e)) m"
  by (induction m arbitrary: s) (simp_all add: sendData_frame)

lemma enableStreamManagement_frame:
  "dataBuffer (enableStreamManagement env r s) = dataBuffer s"
  "streamStart (enableStreamManagement env r s) = streamStart s"
  "streamManagementEnabled (enableStreamManagement env r s) = True"
  by (simp_all add: enableStreamManagement_def Let_def sendAcknowledgementRequest_frame
        resendUnchanged_frame resendRenumbered_frame)

lemma enableStreamManagement_keep:
  "unacknowledgedStanzas (enableStreamManagement env False s) = unacknowledgedStanzas s"
  "lastOutgoingSequenceNumber (enableStreamManagement env False s) = lastOutgoingSequenceNumber s"
  "lastIncomingSequenceNumber (enableStreamManagement env False s) = lastIncomingSequenceNumber s"
  by (simp_all add: enableStreamManagement_def Let_def sendAcknowledgementRequest_frame
        resendUnchanged_frame)

subsection \<open>Receiving\<close>

lemma handleAcknowledgement_frame:
  "dataBuffer (handleAcknowledgement env el s) = dataBuffer s"
  "streamStart (handleAcknowledgement env el s) = streamStart s"
  "streamManagementEnabled (handleAcknowledgement env el s) = streamManagementEnabled s"
  "lastOutgoingSequenceNumber (handleAcknowledgement env el s) = lastOutgoingSequenceNumber s"
  "lastIncomingSequenceNumber (handleAcknowledgement env el s) = lastIncomingSequenceNumber s"
  by (simp_all add: handleAcknowledgement_def setAcknowledgedSequenceNumber_def)

lemma processStanzas_dataBuffer:
  assumes "\<forall>el t. dataBuffer (handleStanza env el t) = dataBuffer t"
  shows "dataBuffer (processStanzas env nodes s) = dataBuffer s"
  using assms
  by (induction nodes arbitrary: s)
     (simp_all add: processStanza_def Let_def handleAcknowledgement_frame sendAcknowledgement_frame)

lemma trimmed_empty_iff: "trimmed env text = [] \<longleftrightarrow> (\<forall>c \<in> set text. isSpace env c)"
proof (cases "dropWhile (isSpace env) text")
  case Nil
  then have "\<forall>c \<in> set text. isSpace env c"
    by (simp add: dropWhile_eq_Nil_conv)
  then show ?thesis by (auto simp: trimmed_def dest: set_dropWhileD)
next
  case (Cons c cs)
  have "\<not> isSpace env (hd (dropWhile (isSpace env) text))"
    by (rule hd_dropWhile) (simp add: Cons)
  then have no_space: "\<not> isSpace env c"
    by (simp add: Cons)
  have kept: "c \<in> set (dropWhile (isSpace env) text)"
    by (simp add: Cons)
  then have "c \<in> set text"
    by (rule set_dropWhileD)
  with no_space kept show ?thesis
    by (auto simp: trimmed_def dropWhile_eq_Nil_conv)
qed

subsection \<open>Sequences of sends\<close>

lemma sendPackets_numbers:
  "streamManagementEnabled s \<Longrightarrow>
   map (\<lambda>x. lastOutgoingSequenceNumber (snd x))
     (filter (\<lambda>x. isXmppStanza (fst x)) (zip ps (sendPackets env ps s))) =
   numbersFrom (lastOutgoingSequenceNumber s) (length (filter isXmppStanza ps))"
  by (induction ps arbitrary: s) (simp_all add: sendPacket_frame sendPacket_register)

lemma sendPackets_last:
  "streamManagementEnabled s \<Longrightarrow>
   unacknowledgedStanzas (last (s # sendPackets env ps s)) =
     registered (lastOutgoingSequenceNumber s) (filter isXmppStanza ps) (unacknowledgedStanzas s) \<and>
   lastOutgoingSequenceNumber (last (s # sendPackets env ps s)) =
     lastOutgoingSequenceNumber s + of_nat (length (filter isXmppStanza ps))"
  by (induction ps arbitrary: s) (simp_all add: sendPacket_frame sendPacket_register)

text \<open>
  The outgoing counter wraps: \<open>2\<^sup>3\<^sup>2 - 1\<close> message, presence or iq packets sent from a
  counter at 0 take it to its largest value, and the next one to 0.
\<close>

lemma outgoing_counter_wraps:
  assumes "streamManagementEnabled s" and "lastOutgoingSequenceNumber s = 0"
    and "length (filter isXmppStanza ps) = 4294967295"
  shows "lastOutgoingSequenceNumber (last (s # sendPackets env ps s)) = 4294967295"
    and "isXmppStanza p \<Longrightarrow>
         lastOutgoingSequenceNumber
           (snd (sendPacket env p (last (s # sendPackets env ps s)))) = 0"
proof -
  have enabled: "streamManagementEnabled (last (s # sendPackets env qs s))" for qs
    using assms(1) by (induction qs arbitrary: s) (simp_all add: sendPacket_frame)
  show top: "lastOutgoingSequenceNumber (last (s # sendPackets env ps s)) = 4294967295"
    using assms sendPackets_last [where s = s and ps = ps and env = env] by simp
  show "lastOutgoingSequenceNumber
          (snd (sendPacket env p (last (s # sendPackets env ps s)))) = 0"
    if "isXmppStanza p"
    using that top enabled [of ps] by (simp add: sendPacket_register)
qed

lemma numbersFrom_fresh:
  "m + n < 2 ^ 32 \<Longrightarrow> k \<notin> set (numbersFrom (k + of_nat m) n)"
proof (induction n arbitrary: m)
  case 0
  then show ?case by simp
next
  case (Suc n)
  have "k \<noteq> k + of_nat (Suc m)"
  proof
    assume "k = k + of_nat (Suc m)"
    then have "(of_nat (Suc m) :: uint) = 0" by simp
    then have "2 ^ LENGTH(32) dvd Suc m" by (rule word_of_nat_eq_0_iff [THEN iffD1])
    with Suc.prems show False by (auto dest: dvd_imp_le)
  qed
  moreover have "k \<notin> set (numbersFrom (k + of_nat (Suc m)) n)"
    using Suc.prems by (intro Suc.IH) simp
  ultimately show ?case
    by (simp add: ac_simps)
qed

lemma numbersFrom_distinct:
  "n < 2 ^ 32 \<Longrightarrow> distinct (numbersFrom k n)"
proof (induction n arbitrary: k)
  case 0
  then show ?case by simp
next
  case (Suc n)
  have "k + 1 \<notin> set (numbersFrom (k + 1 + of_nat 0) n)"
    using Suc.prems by (intro numbersFrom_fresh) simp
  with Suc show ?case by simp
qed

text \<open>
  Past \<open>2\<^sup>3\<^sup>2\<close> increments the counter gives a number again: every value from \<open>k + 1\<close> to
  \<open>k + n\<close> is among the \<open>n\<close> numbers given from \<open>k\<close>, and \<open>k + 1 + 2\<^sup>3\<^sup>2\<close> is \<open>k + 1\<close>.
\<close>

lemma numbersFrom_member:
  "1 \<le> i \<Longrightarrow> i \<le> n \<Longrightarrow> k + of_nat i \<in> set (numbersFrom k n)"
proof (induction n arbitrary: k i)
  case 0
  then show ?case by simp
next
  case (Suc n)
  show ?case
  proof (cases "i = 1")
    case True
    then show ?thesis by simp
  next
    case False
    with Suc.prems obtain j where j: "i = Suc j" "1 \<le> j" "j \<le> n"
      by (cases i) auto
    have "k + 1 + of_nat j \<in> set (numbersFrom (k + 1) n)"
      using j by (intro Suc.IH)
    then show ?thesis
      by (simp add: j ac_simps)
  qed
qed

lemma numbersFrom_wrap: "\<not> distinct (numbersFrom k (Suc 4294967296))"
proof -
  have member: "k + 1 + of_nat 4294967296 \<in> set (numbersFrom (k + 1) 4294967296)"
    by (rule numbersFrom_member) simp_all
  have wrap: "k + 1 + (of_nat 4294967296 :: uint) = k + 1"
    by simp
  from member have "k + 1 \<in> set (numbersFrom (k + 1) 4294967296)"
    by (simp only: wrap)
  then show ?thesis
    by (simp only: numbersFrom.simps distinct.simps not_False_eq_True simp_thms)
qed

lemma sendPackets_replicate:
  assumes "streamManagementEnabled s" and "isXmppStanza p"
  shows "map (\<lambda>x. lastOutgoingSequenceNumber (snd x))
           (filter (\<lambda>x. isXmppStanza (fst x))
              (zip (replicate n p) (sendPackets env (replicate n p) s))) =
         numbersFrom (lastOutgoingSequenceNumber s) n"
proof -
  have "filter isXmppStanza (replicate n p) = replicate n p"
    using assms(2) by (induction n) simp_all
  then have "length (filter isXmppStanza (replicate n p)) = n"
    by (simp only: length_replicate)
  with assms(1) show ?thesis
    by (simp only: sendPackets_numbers)
qed

subsection \<open>The claims\<close>

text \<open>
  C1. A child of the document element that is neither an acknowledgement nor a request
  is handed to \<^verbatim>\<open>handleStanza\<close>, and afterwards the incoming counter is incremented
  exactly when its tag name is message, presence or iq. Whether stream management is
  enabled plays no part.
\<close>

theorem incoming_counter_counts_real_stanzas:
  assumes "\<not> isStreamManagementAck env nodeRecv" and "\<not> isStreamManagementReq env nodeRecv"
  shows "processStanza env nodeRecv s =
           (handleStanza env nodeRecv s)
             \<lparr>lastIncomingSequenceNumber :=
                lastIncomingSequenceNumber (handleStanza env nodeRecv s) +
                (if tagName nodeRecv \<in> {''message'', ''presence'', ''iq''} then 1 else 0)\<rparr> \<and>
         (lastIncomingSequenceNumber (processStanza env nodeRecv s) \<noteq>
            lastIncomingSequenceNumber (handleStanza env nodeRecv s)
          \<longleftrightarrow> tagName nodeRecv \<in> {''message'', ''presence'', ''iq''})"
  using assms by (simp add: processStanza_def Let_def)

theorem incoming_counter_counts_real_stanzas_witness:
  "lastIncomingSequenceNumber
     (processStanza sampleEnv (Element ''iq'' ''jabber:client'' [] []) sampleStream) = 5 \<and>
   lastIncomingSequenceNumber
     (processStanza sampleEnv (Element ''features'' ''jabber:client'' [] []) sampleStream) = 4"
  using incoming_counter_counts_real_stanzas
          [of sampleEnv "Element ''iq'' ''jabber:client'' [] []" sampleStream]
        incoming_counter_counts_real_stanzas
          [of sampleEnv "Element ''features'' ''jabber:client'' [] []" sampleStream]
  by (simp add: sampleEnv_def sampleStream_def emitLog_def)

text \<open>
  With stream management disabled a message still increments the counter, so the
  increment is not tied to the flag.
\<close>

theorem incoming_counter_unguarded_counterexample:
  "\<not> (lastIncomingSequenceNumber
        (processStanza sampleEnv (Element ''message'' ''jabber:client'' [] [])
           (sampleStream\<lparr>streamManagementEnabled := False\<rparr>)) \<noteq>
      lastIncomingSequenceNumber
        (handleStanza sampleEnv (Element ''message'' ''jabber:client'' [] [])
           (sampleStream\<lparr>streamManagementEnabled := False\<rparr>))
      \<longleftrightarrow>
      streamManagementEnabled (sampleStream\<lparr>streamManagementEnabled := False\<rparr>) \<and>
      tagName (Element ''message'' ''jabber:client'' [] []) \<in> {''message'', ''presence'', ''iq''})"
  by (simp add: processStanza_def sampleEnv_def sampleStream_def emitLog_def)

text \<open>
  C2. \<^verbatim>\<open>setAcknowledgedSequenceNumber n\<close> leaves exactly the entries with a sequence number
  above \<open>n\<close> and changes nothing else; \<^verbatim>\<open>handleAcknowledgement\<close> does this with the number
  of the frame when stream management is enabled and nothing when it is disabled.
  Acknowledging 0 removes the entry stored under 0 and no other, so it leaves a map
  without such an entry unchanged.
\<close>

theorem acknowledge_is_cumulative:
  "setAcknowledgedSequenceNumber n s =
     s\<lparr>unacknowledgedStanzas := filter (\<lambda>e. n < fst e) (unacknowledgedStanzas s)\<rparr> \<and>
   set (unacknowledgedStanzas (setAcknowledgedSequenceNumber n s)) =
     {e \<in> set (unacknowledgedStanzas s). n < fst e} \<and>
   handleAcknowledgement env element s =
     (if streamManagementEnabled s then setAcknowledgedSequenceNumber (ackSeqNo env element) s
      else s) \<and>
   unacknowledgedStanzas (setAcknowledgedSequenceNumber 0 s) =
     filter (\<lambda>e. fst e \<noteq> 0) (unacknowledgedStanzas s) \<and>
   (0 \<notin> fst ` set (unacknowledgedStanzas s) \<longrightarrow> setAcknowledgedSequenceNumber 0 s = s)"
proof -
  have nz: "filter (\<lambda>e. (0::uint) < fst e) m = filter (\<lambda>e. fst e \<noteq> 0) m" for m :: QMap
    by (simp add: word_gt_0)
  have keep: "filter (\<lambda>e. fst e \<noteq> (0::uint)) m = m" if "0 \<notin> fst ` set m" for m :: QMap
    using that by (induction m) auto
  show ?thesis
    by (auto simp: setAcknowledgedSequenceNumber_def eraseAcknowledged_filter
          handleAcknowledgement_def nz keep)
qed

theorem acknowledge_is_cumulative_witness:
  "unacknowledgedStanzas (setAcknowledgedSequenceNumber 5 sampleStream) = [(7, ''C'')] \<and>
   unacknowledgedStanzas (setAcknowledgedSequenceNumber 0 sampleStream) =
     [(3, ''A''), (5, ''B''), (7, ''C'')] \<and>
   setAcknowledgedSequenceNumber 0 sampleStream = sampleStream \<and>
   handleAcknowledgement sampleEnv (Element ''a'' ''urn:xmpp:sm:3'' [(''h'', ''5'')] [])
     (sampleStream\<lparr>streamManagementEnabled := False\<rparr>) =
     sampleStream\<lparr>streamManagementEnabled := False\<rparr>"
  using acknowledge_is_cumulative [of 5 sampleStream sampleEnv "Element ''a'' ''urn:xmpp:sm:3'' [(''h'', ''5'')] []"]
    acknowledge_is_cumulative [of 0 sampleStream sampleEnv "Element ''a'' ''urn:xmpp:sm:3'' [(''h'', ''5'')] []"]
    acknowledge_is_cumulative [of 0 "sampleStream\<lparr>streamManagementEnabled := False\<rparr>" sampleEnv "Element ''a'' ''urn:xmpp:sm:3'' [(''h'', ''5'')] []"]
  by (simp add: sampleStream_def)

text \<open>
  The 32-bit counter wraps (\<open>outgoing_counter_wraps\<close>): the packet sent when it stands at
  \<open>2\<^sup>3\<^sup>2 - 1\<close> is stored under 0, and acknowledging 0 then removes it.
\<close>

theorem acknowledge_zero_counterexample:
  "unacknowledgedStanzas
     (snd (sendPacket sampleEnv \<lparr>toXml = ''<message/>'', isXmppStanza = True\<rparr>
        (sampleStream\<lparr>unacknowledgedStanzas := [],
                       lastOutgoingSequenceNumber := 4294967295\<rparr>))) = [(0, ''<message/>'')] \<and>
   unacknowledgedStanzas
     (setAcknowledgedSequenceNumber 0
        (snd (sendPacket sampleEnv \<lparr>toXml = ''<message/>'', isXmppStanza = True\<rparr>
           (sampleStream\<lparr>unacknowledgedStanzas := [],
                          lastOutgoingSequenceNumber := 4294967295\<rparr>)))) = [] \<and>
   unacknowledgedStanzas
     (handleAcknowledgement sampleEnv (Element ''a'' ''urn:xmpp:sm:3'' [(''h'', ''0'')] [])
        (snd (sendPacket sampleEnv \<lparr>toXml = ''<message/>'', isXmppStanza = True\<rparr>
           (sampleStream\<lparr>unacknowledgedStanzas := [],
                          lastOutgoingSequenceNumber := 4294967295\<rparr>)))) = []"
  by (simp add: sendPacket_register sendPacket_frame setAcknowledgedSequenceNumber_def
        handleAcknowledgement_def sampleStream_def sampleEnv_def)

text \<open>
  C3. With stream management enabled, \<^verbatim>\<open>sendPacket\<close> stores the text of a message,
  presence or iq packet under the incremented outgoing counter and only then calls
  \<^verbatim>\<open>sendData\<close>. It returns what \<^verbatim>\<open>sendData\<close> returns: false without a socket, with a
  socket that is not connected, or when the socket refuses the text. The stored entry
  is there whatever the result.
\<close>

theorem send_registers_before_transmission:
  assumes "isXmppStanza packet" and "streamManagementEnabled s"
  shows "unacknowledgedStanzas (snd (sendPacket env packet s)) =
           QMap_assign (lastOutgoingSequenceNumber s + 1) (toXml packet)
             (unacknowledgedStanzas s) \<and>
         map_of (unacknowledgedStanzas (snd (sendPacket env packet s)))
           (lastOutgoingSequenceNumber s + 1) = Some (toXml packet) \<and>
         lastOutgoingSequenceNumber (snd (sendPacket env packet s)) =
           lastOutgoingSequenceNumber s + 1 \<and>
         sendPacket env packet s =
           (let r = sendData env (toXml packet)
                      (s\<lparr>lastOutgoingSequenceNumber := lastOutgoingSequenceNumber s + 1,
                         unacknowledgedStanzas :=
                           QMap_assign (lastOutgoingSequenceNumber s + 1) (toXml packet)
                             (unacknowledgedStanzas s)\<rparr>)
            in (fst r, sendAcknowledgementRequest env (snd r))) \<and>
         fst (sendPacket env packet s) =
           (case socket s of
              None \<Rightarrow> False
            | Some k \<Rightarrow> sock_state env k = ConnectedState \<and>
                        fst (sock_sendTextMessage env k (toXml packet)))"
  using assms
  by (simp add: sendPacket_register QMap_assign_lookup)
     (simp add: sendPacket_def Let_def sendData_result)

theorem send_registers_before_transmission_witness:
  "fst (sendPacket sampleEnv \<lparr>toXml = ''<message/>'', isXmppStanza = True\<rparr>
          (sampleStream\<lparr>socket := Some (UnconnectedState, [])\<rparr>)) = False \<and>
   unacknowledgedStanzas
     (snd (sendPacket sampleEnv \<lparr>toXml = ''<message/>'', isXmppStanza = True\<rparr>
        (sampleStream\<lparr>socket := Some (UnconnectedState, [])\<rparr>))) =
     [(3, ''A''), (5, ''B''), (7, ''C''), (8, ''<message/>'')] \<and>
   fst (sendPacket sampleEnv \<lparr>toXml = ''<message/>'', isXmppStanza = True\<rparr>
          (sampleStream\<lparr>socket := None\<rparr>)) = False \<and>
   unacknowledgedStanzas
     (snd (sendPacket sampleEnv \<lparr>toXml = ''<message/>'', isXmppStanza = True\<rparr>
        (sampleStream\<lparr>socket := None\<rparr>))) =
     [(3, ''A''), (5, ''B''), (7, ''C''), (8, ''<message/>'')]"
  using send_registers_before_transmission
          [of "\<lparr>toXml = ''<message/>'', isXmppStanza = True\<rparr>"
              "sampleStream\<lparr>socket := Some (UnconnectedState, [])\<rparr>" sampleEnv]
        send_registers_before_transmission
          [of "\<lparr>toXml = ''<message/>'', isXmppStanza = True\<rparr>"
              "sampleStream\<lparr>socket := None\<rparr>" sampleEnv]
  by (simp add: run_defs)

text \<open>
  C4. On a new stream on which stream management was enabled (or any stream with
  stream management enabled and the outgoing counter at 0), a sequence of calls whose
  message, presence and iq packets are a, b, c in this order gives them the numbers
  1, 2, 3 and stores their texts under these; a packet of another kind changes neither
  the counter nor the map. In any sequence with fewer than \<open>2\<^sup>3\<^sup>2\<close> such packets the
  numbers given are pairwise distinct.
\<close>

theorem sequence_numbers_in_send_order:
  assumes "filter isXmppStanza packets = [a, b, c]"
    and "s = enableStreamManagement env r (QXmppStreamPrivate\<lparr>socket := k\<rparr>) \<or>
         streamManagementEnabled s \<and> lastOutgoingSequenceNumber s = 0"
  shows "map (\<lambda>x. lastOutgoingSequenceNumber (snd x))
           (filter (\<lambda>x. isXmppStanza (fst x)) (zip packets (sendPackets env packets s))) =
           [1, 2, 3] \<and>
         unacknowledgedStanzas (last (s # sendPackets env packets s)) =
           QMap_assign 3 (toXml c) (QMap_assign 2 (toXml b) (QMap_assign 1 (toXml a)
             (unacknowledgedStanzas s))) \<and>
         lastOutgoingSequenceNumber (last (s # sendPackets env packets s)) = 3 \<and>
         (\<forall>p t. \<not> isXmppStanza p \<longrightarrow>
            lastOutgoingSequenceNumber (snd (sendPacket env p t)) = lastOutgoingSequenceNumber t \<and>
            unacknowledgedStanzas (snd (sendPacket env p t)) = unacknowledgedStanzas t) \<and>
         (\<forall>ps t. streamManagementEnabled t \<longrightarrow> length (filter isXmppStanza ps) < 2 ^ 32 \<longrightarrow>
            distinct (map (\<lambda>x. lastOutgoingSequenceNumber (snd x))
              (filter (\<lambda>x. isXmppStanza (fst x)) (zip ps (sendPackets env ps t)))))"
proof -
  have start: "streamManagementEnabled s \<and> lastOutgoingSequenceNumber s = 0"
    using assms(2)
    by (auto simp: enableStreamManagement_def QXmppStreamPrivate_def Let_def)
  have "map (\<lambda>x. lastOutgoingSequenceNumber (snd x))
          (filter (\<lambda>x. isXmppStanza (fst x)) (zip packets (sendPackets env packets s))) =
          [1, 2, 3]"
    using assms(1) start sendPackets_numbers [where s = s and ps = packets and env = env]
    by simp
  moreover have
    "unacknowledgedStanzas (last (s # sendPackets env packets s)) =
       QMap_assign 3 (toXml c) (QMap_assign 2 (toXml b) (QMap_assign 1 (toXml a)
         (unacknowledgedStanzas s))) \<and>
     lastOutgoingSequenceNumber (last (s # sendPackets env packets s)) = 3"
    using assms(1) start sendPackets_last [where s = s and ps = packets and env = env]
    by simp
  moreover have
    "lastOutgoingSequenceNumber (snd (sendPacket env p t)) = lastOutgoingSequenceNumber t \<and>
     unacknowledgedStanzas (snd (sendPacket env p t)) = unacknowledgedStanzas t"
    if "\<not> isXmppStanza p" for p and t :: "'a QXmppStream"
    using that by (simp add: sendPacket_register)
  moreover have
    "distinct (map (\<lambda>x. lastOutgoingSequenceNumber (snd x))
       (filter (\<lambda>x. isXmppStanza (fst x)) (zip ps (sendPackets env ps t))))"
    if "streamManagementEnabled t" and "length (filter isXmppStanza ps) < 2 ^ 32"
    for ps and t :: "'a QXmppStream"
    using that by (simp only: sendPackets_numbers numbersFrom_distinct)
  ultimately show ?thesis by blast
qed

theorem sequence_numbers_in_send_order_witness:
  "map (\<lambda>x. lastOutgoingSequenceNumber (snd x))
     (filter (\<lambda>x. isXmppStanza (fst x))
        (zip [\<lparr>toXml = ''<message/>'', isXmppStanza = True\<rparr>,
              \<lparr>toXml = ''<auth/>'', isXmppStanza = False\<rparr>,
              \<lparr>toXml = ''<presence/>'', isXmppStanza = True\<rparr>,
              \<lparr>toXml = ''<iq/>'', isXmppStanza = True\<rparr>]
           (sendPackets sampleEnv
              [\<lparr>toXml = ''<message/>'', isXmppStanza = True\<rparr>,
               \<lparr>toXml = ''<auth/>'', isXmppStanza = False\<rparr>,
               \<lparr>toXml = ''<presence/>'', isXmppStanza = True\<rparr>,
               \<lparr>toXml = ''<iq/>'', isXmppStanza = True\<rparr>]
              (enableStreamManagement sampleEnv True
                 (QXmppStreamPrivate\<lparr>socket := Some (ConnectedState, [])\<rparr>))))) = [1, 2, 3] \<and>
   unacknowledgedStanzas
     (last (sendPackets sampleEnv
        [\<lparr>toXml = ''<message/>'', isXmppStanza = True\<rparr>,
         \<lparr>toXml = ''<auth/>'', isXmppStanza = False\<rparr>,
         \<lparr>toXml = ''<presence/>'', isXmppStanza = True\<rparr>,
         \<lparr>toXml = ''<iq/>'', isXmppStanza = True\<rparr>]
        (enableStreamManagement sampleEnv True
           (QXmppStreamPrivate\<lparr>socket := Some (ConnectedState, [])\<rparr>)))) =
     [(1, ''<message/>''), (2, ''<presence/>''), (3, ''<iq/>'')]"
  using sequence_numbers_in_send_order
    [where packets = "[\<lparr>toXml = ''<message/>'', isXmppStanza = True\<rparr>,
          \<lparr>toXml = ''<auth/>'', isXmppStanza = False\<rparr>,
          \<lparr>toXml = ''<presence/>'', isXmppStanza = True\<rparr>,
          \<lparr>toXml = ''<iq/>'', isXmppStanza = True\<rparr>]"
       and a = "\<lparr>toXml = ''<message/>'', isXmppStanza = True\<rparr>"
       and b = "\<lparr>toXml = ''<presence/>'', isXmppStanza = True\<rparr>"
       and c = "\<lparr>toXml = ''<iq/>'', isXmppStanza = True\<rparr>"
       and env = sampleEnv and r = True and k = "Some (ConnectedState, [])"
       and s = "enableStreamManagement sampleEnv True
                  (QXmppStreamPrivate\<lparr>socket := Some (ConnectedState, [])\<rparr>)"]
  by (simp add: enableStreamManagement_def QXmppStreamPrivate_def Let_def)

text \<open>
  The numbers follow the counter, so from a counter at 7 three such packets get 8, 9
  and 10; and the counter wraps, so of \<open>2\<^sup>3\<^sup>2 + 1\<close> messages sent on a new stream after
  stream management was enabled, two get the same number.
\<close>

theorem sequence_numbers_counterexample:
  "map (\<lambda>x. lastOutgoingSequenceNumber (snd x))
     (filter (\<lambda>x. isXmppStanza (fst x))
        (zip [\<lparr>toXml = ''<message/>'', isXmppStanza = True\<rparr>,
              \<lparr>toXml = ''<presence/>'', isXmppStanza = True\<rparr>,
              \<lparr>toXml = ''<iq/>'', isXmppStanza = True\<rparr>]
           (sendPackets sampleEnv
              [\<lparr>toXml = ''<message/>'', isXmppStanza = True\<rparr>,
               \<lparr>toXml = ''<presence/>'', isXmppStanza = True\<rparr>,
               \<lparr>toXml = ''<iq/>'', isXmppStanza = True\<rparr>]
              sampleStream))) = [8, 9, 10] \<and>
   \<not> distinct
       (map (\<lambda>x. lastOutgoingSequenceNumber (snd x))
          (filter (\<lambda>x. isXmppStanza (fst x))
             (zip (replicate (Suc 4294967296) \<lparr>toXml = ''<message/>'', isXmppStanza = True\<rparr>)
                (sendPackets sampleEnv
                   (replicate (Suc 4294967296) \<lparr>toXml = ''<message/>'', isXmppStanza = True\<rparr>)
                   (enableStreamManagement sampleEnv True
                      (QXmppStreamPrivate\<lparr>socket := Some (ConnectedState, [])\<rparr>))))))"
proof -
  have first: "map (\<lambda>x. lastOutgoingSequenceNumber (snd x))
     (filter (\<lambda>x. isXmppStanza (fst x))
        (zip [\<lparr>toXml = ''<message/>'', isXmppStanza = True\<rparr>,
              \<lparr>toXml = ''<presence/>'', isXmppStanza = True\<rparr>,
              \<lparr>toXml = ''<iq/>'', isXmppStanza = True\<rparr>]
           (sendPackets sampleEnv
              [\<lparr>toXml = ''<message/>'', isXmppStanza = True\<rparr>,
               \<lparr>toXml = ''<presence/>'', isXmppStanza = True\<rparr>,
               \<lparr>toXml = ''<iq/>'', isXmppStanza = True\<rparr>]
              sampleStream))) = [8, 9, 10]"
    by (simp add: sendPacket_register sendPacket_frame sampleStream_def)
  have "streamManagementEnabled
          (enableStreamManagement sampleEnv True
             (QXmppStreamPrivate\<lparr>socket := Some (ConnectedState, [])\<rparr>))"
    by (simp only: enableStreamManagement_frame)
  then have second: "\<not> distinct
       (map (\<lambda>x. lastOutgoingSequenceNumber (snd x))
          (filter (\<lambda>x. isXmppStanza (fst x))
             (zip (replicate (Suc 4294967296) \<lparr>toXml = ''<message/>'', isXmppStanza = True\<rparr>)
                (sendPackets sampleEnv
                   (replicate (Suc 4294967296) \<lparr>toXml = ''<message/>'', isXmppStanza = True\<rparr>)
                   (enableStreamManagement sampleEnv True
                      (QXmppStreamPrivate\<lparr>socket := Some (ConnectedState, [])\<rparr>))))))"
    by (simp only: sendPackets_replicate QXmppStanza.simps numbersFrom_wrap not_False_eq_True)
  from first second show ?thesis by (rule conjI)
qed

text \<open>
  C5. With unacknowledged stanzas A, B, C under 3, 5, 7: enabling with a reset leaves
  A, B, C under 1, 2, 3, the incoming counter at 0 and the outgoing counter, zeroed
  before the renumbering, at 3; enabling without a reset leaves map and counters as they
  were. Both send A, B, C in this order and then one acknowledgement request.
\<close>

theorem enable_resends_ledger:
  assumes "unacknowledgedStanzas s = [(3, A), (5, B), (7, C)]"
  shows "enableStreamManagement env True s =
           sendAcknowledgementRequest env
             (resendRenumbered env [(3, A), (5, B), (7, C)]
                (s\<lparr>streamManagementEnabled := True, lastOutgoingSequenceNumber := 0,
                   lastIncomingSequenceNumber := 0, unacknowledgedStanzas := []\<rparr>)) \<and>
         enableStreamManagement env False s =
           sendAcknowledgementRequest env
             (resendUnchanged env [(3, A), (5, B), (7, C)]
                (s\<lparr>streamManagementEnabled := True\<rparr>)) \<and>
         unacknowledgedStanzas (enableStreamManagement env True s) = [(1, A), (2, B), (3, C)] \<and>
         lastOutgoingSequenceNumber (enableStreamManagement env True s) = 3 \<and>
         lastIncomingSequenceNumber (enableStreamManagement env True s) = 0 \<and>
         streamManagementEnabled (enableStreamManagement env True s) \<and>
         logMessages (enableStreamManagement env True s) =
           logMessages s @ [(SentMessage, A), (SentMessage, B), (SentMessage, C),
                            (SentMessage, reqToXml env)] \<and>
         unacknowledgedStanzas (enableStreamManagement env False s) = [(3, A), (5, B), (7, C)] \<and>
         lastOutgoingSequenceNumber (enableStreamManagement env False s) =
           lastOutgoingSequenceNumber s \<and>
         lastIncomingSequenceNumber (enableStreamManagement env False s) =
           lastIncomingSequenceNumber s \<and>
         streamManagementEnabled (enableStreamManagement env False s) \<and>
         logMessages (enableStreamManagement env False s) =
           logMessages s @ [(SentMessage, A), (SentMessage, B), (SentMessage, C),
                            (SentMessage, reqToXml env)]"
  using assms
  by (simp add: enableStreamManagement_def Let_def sendAcknowledgementRequest_frame
        sendAcknowledgementRequest_log resendUnchanged_frame resendUnchanged_log
        resendRenumbered_frame resendRenumbered_log sendData_frame)

theorem enable_resends_ledger_witness:
  "unacknowledgedStanzas (enableStreamManagement sampleEnv True sampleStream) =
     [(1, ''A''), (2, ''B''), (3, ''C'')] \<and>
   lastOutgoingSequenceNumber (enableStreamManagement sampleEnv True sampleStream) = 3 \<and>
   lastIncomingSequenceNumber (enableStreamManagement sampleEnv True sampleStream) = 0 \<and>
   logMessages (enableStreamManagement sampleEnv True sampleStream) =
     [(SentMessage, ''A''), (SentMessage, ''B''), (SentMessage, ''C''), (SentMessage, ''<r/>'')] \<and>
   unacknowledgedStanzas (enableStreamManagement sampleEnv False sampleStream) =
     [(3, ''A''), (5, ''B''), (7, ''C'')] \<and>
   lastOutgoingSequenceNumber (enableStreamManagement sampleEnv False sampleStream) = 7 \<and>
   lastIncomingSequenceNumber (enableStreamManagement sampleEnv False sampleStream) = 4 \<and>
   logMessages (enableStreamManagement sampleEnv False sampleStream) =
     [(SentMessage, ''A''), (SentMessage, ''B''), (SentMessage, ''C''), (SentMessage, ''<r/>'')] \<and>
   socket (enableStreamManagement sampleEnv True sampleStream) =
     Some (ConnectedState, [''A'', ''B'', ''C'', ''<r/>'']) \<and>
   socket (enableStreamManagement sampleEnv False sampleStream) =
     Some (ConnectedState, [''A'', ''B'', ''C'', ''<r/>''])"
  using enable_resends_ledger [of sampleStream "''A''" "''B''" "''C''" sampleEnv]
  by (simp add: run_defs)

text \<open>
  C6. With no unacknowledged stanza, \<^verbatim>\<open>enableStreamManagement\<close> only switches stream
  management on and, when resetting, zeroes the two counters: nothing is sent, nothing
  is logged, and the map stays empty.
\<close>

theorem enable_empty_ledger:
  assumes "unacknowledgedStanzas s = []"
  shows "enableStreamManagement env resetSequenceNumber s =
           (if resetSequenceNumber
            then s\<lparr>streamManagementEnabled := True,
                   lastOutgoingSequenceNumber := 0, lastIncomingSequenceNumber := 0\<rparr>
            else s\<lparr>streamManagementEnabled := True\<rparr>)"
  using assms by (simp add: enableStreamManagement_def)

theorem enable_empty_ledger_witness:
  "enableStreamManagement sampleEnv True (sampleStream\<lparr>unacknowledgedStanzas := []\<rparr>) =
     sampleStream\<lparr>unacknowledgedStanzas := [], lastOutgoingSequenceNumber := 0,
                  lastIncomingSequenceNumber := 0\<rparr> \<and>
   enableStreamManagement sampleEnv False
     (sampleStream\<lparr>unacknowledgedStanzas := [], streamManagementEnabled := False\<rparr>) =
     sampleStream\<lparr>unacknowledgedStanzas := []\<rparr>"
  using enable_empty_ledger [of "sampleStream\<lparr>unacknowledgedStanzas := []\<rparr>" sampleEnv True]
    enable_empty_ledger
      [of "sampleStream\<lparr>unacknowledgedStanzas := [], streamManagementEnabled := False\<rparr>"
          sampleEnv False]
  by (simp add: sampleStream_def)

text \<open>
  C7. A chunk that leaves the buffer non-empty and all white space is a ping: the buffer
  is emptied and \<^verbatim>\<open>handleStanza\<close> is called once, with the null element. Nothing is
  parsed and no element of a document is dispatched. The buffer is empty afterwards
  unless the hook itself changes it.
\<close>

theorem whitespace_ping:
  assumes "dataBuffer s @ text \<noteq> []" and "\<forall>c \<in> set (dataBuffer s @ text). isSpace env c"
  shows "handleTextMessageReceived env text s =
           handleStanza env NullElement (s\<lparr>dataBuffer := []\<rparr>) \<and>
         ((\<forall>el t. dataBuffer (handleStanza env el t) = dataBuffer t) \<longrightarrow>
            dataBuffer (handleTextMessageReceived env text s) = [])"
proof -
  have "trimmed env (dataBuffer s @ text) = []"
    using assms(2) by (simp only: trimmed_empty_iff)
  with assms(1) show ?thesis
    by (simp add: handleTextMessageReceived_def)
qed

theorem whitespace_ping_witness:
  "handleTextMessageReceived sampleEnv [CHR 0x0A] (sampleStream\<lparr>dataBuffer := '' ''\<rparr>) =
     sampleStream\<lparr>dataBuffer := [], logMessages := [(DebugMessage, ''handleStanza:'')]\<rparr>"
  using whitespace_ping [of "sampleStream\<lparr>dataBuffer := '' ''\<rparr>" "[CHR 0x0A]" sampleEnv]
  by (simp add: sampleEnv_def sampleStream_def emitLog_def)

text \<open>
  C8. On a chunk that is not a ping: when the candidate document does not parse, the
  stream is what it was but for the chunk appended to the buffer (no stream start
  captured, no counter changed, nothing logged, no hook called); when it parses, the
  buffer is emptied, and is empty afterwards unless a hook changes it.
\<close>

theorem failed_parse_keeps_buffer:
  assumes "dataBuffer s @ text = [] \<or> (\<exists>c \<in> set (dataBuffer s @ text). \<not> isSpace env c)"
  shows "(setContent env (completeXml env (s\<lparr>dataBuffer := dataBuffer s @ text\<rparr>)) = None \<longrightarrow>
            handleTextMessageReceived env text s = s\<lparr>dataBuffer := dataBuffer s @ text\<rparr>) \<and>
         (setContent env (completeXml env (s\<lparr>dataBuffer := dataBuffer s @ text\<rparr>)) \<noteq> None \<longrightarrow>
            (\<forall>el t. dataBuffer (handleStanza env el t) = dataBuffer t \<and>
                    dataBuffer (handleStream env el t) = dataBuffer t) \<longrightarrow>
            dataBuffer (handleTextMessageReceived env text s) = [])"
proof -
  have "\<not> (dataBuffer s @ text \<noteq> [] \<and> trimmed env (dataBuffer s @ text) = [])"
    using assms by (auto simp only: trimmed_empty_iff)
  then show ?thesis
    by (auto simp: handleTextMessageReceived_def Let_def processStanzas_dataBuffer
          disconnectFromHost_frame logReceived_def emitLog_def split: option.splits)
qed

theorem failed_parse_keeps_buffer_witness:
  "handleTextMessageReceived sampleEnv '' to='' sampleStream =
     sampleStream\<lparr>dataBuffer := ''<presence to=''\<rparr> \<and>
   dataBuffer (handleTextMessageReceived sampleEnv ''<r/><features/>''
     (sampleStream\<lparr>dataBuffer := ''<message/>''\<rparr>)) = []"
  using failed_parse_keeps_buffer [of sampleStream "'' to=''" sampleEnv]
    failed_parse_keeps_buffer [of "sampleStream\<lparr>dataBuffer := ''<message/>''\<rparr>" "''<r/><features/>''" sampleEnv]
  by (simp add: run_defs)

text \<open>
  C9. A (re)connect event (\<^verbatim>\<open>handleStart\<close>, reached from \<^verbatim>\<open>_q_socketConnected\<close> and
  \<^verbatim>\<open>_q_socketEncrypted\<close>) empties the incoming buffer and the captured stream start and
  switches stream management off; the map of unacknowledged stanzas and both sequence
  counters are what they were. \<^verbatim>\<open>_q_socketConnected\<close> gets there whenever a socket is set.
\<close>

theorem reconnect_resets:
  assumes "s' = handleStart s \<or> s' = q_socketEncrypted s \<or> q_socketConnected env s = Some s'"
  shows "dataBuffer s' = [] \<and> streamStart s' = [] \<and> \<not> streamManagementEnabled s' \<and>
         unacknowledgedStanzas s' = unacknowledgedStanzas s \<and>
         lastOutgoingSequenceNumber s' = lastOutgoingSequenceNumber s \<and>
         lastIncomingSequenceNumber s' = lastIncomingSequenceNumber s \<and>
         socket s' = socket s \<and>
         (socket s \<noteq> None \<longrightarrow> q_socketConnected env s \<noteq> None)"
  using assms
  by (auto simp: handleStart_def q_socketEncrypted_def q_socketConnected_def emitLog_def
        split: option.splits)

theorem reconnect_resets_witness:
  "dataBuffer (handleStart sampleStream) = [] \<and> streamStart (handleStart sampleStream) = [] \<and>
   \<not> streamManagementEnabled (handleStart sampleStream) \<and>
   unacknowledgedStanzas (handleStart sampleStream) = [(3, ''A''), (5, ''B''), (7, ''C'')] \<and>
   lastOutgoingSequenceNumber (handleStart sampleStream) = 7 \<and>
   lastIncomingSequenceNumber (handleStart sampleStream) = 4 \<and>
   q_socketConnected sampleEnv sampleStream \<noteq> None"
  using reconnect_resets [of "handleStart sampleStream" sampleStream sampleEnv]
  by (simp add: sampleStream_def)

text \<open>
  C10. \<^verbatim>\<open>disconnectFromHost\<close> switches stream management off and leaves the map of
  unacknowledged stanzas and both sequence counters as they were; a packet sent after it
  is not registered and takes no sequence number, and once management is enabled again
  a message, presence or iq packet is registered under the next number.
\<close>

theorem disconnect_disables_management:
  "\<not> streamManagementEnabled (disconnectFromHost env s) \<and>
   unacknowledgedStanzas (disconnectFromHost env s) = unacknowledgedStanzas s \<and>
   lastOutgoingSequenceNumber (disconnectFromHost env s) = lastOutgoingSequenceNumber s \<and>
   lastIncomingSequenceNumber (disconnectFromHost env s) = lastIncomingSequenceNumber s \<and>
   logMessages (disconnectFromHost env s) =
     (case socket s of
        None \<Rightarrow> logMessages s
      | Some k \<Rightarrow>
          if sock_state env k = ConnectedState
          then logMessages s @ [(SentMessage, streamRootElementEnd)] else logMessages s) \<and>
   unacknowledgedStanzas (snd (sendPacket env p (disconnectFromHost env s))) =
     unacknowledgedStanzas s \<and>
   lastOutgoingSequenceNumber (snd (sendPacket env p (disconnectFromHost env s))) =
     lastOutgoingSequenceNumber s \<and>
   unacknowledgedStanzas
     (snd (sendPacket env p (enableStreamManagement env False (disconnectFromHost env s)))) =
     (if isXmppStanza p
      then QMap_assign (lastOutgoingSequenceNumber s + 1) (toXml p) (unacknowledgedStanzas s)
      else unacknowledgedStanzas s)"
  by (simp add: disconnectFromHost_frame sendPacket_register enableStreamManagement_frame
        enableStreamManagement_keep)
     (simp add: disconnectFromHost_def Let_def sendData_frame split: option.split)

theorem disconnect_disables_management_witness:
  "\<not> streamManagementEnabled (disconnectFromHost sampleEnv sampleStream) \<and>
   unacknowledgedStanzas (disconnectFromHost sampleEnv sampleStream) =
     [(3, ''A''), (5, ''B''), (7, ''C'')] \<and>
   lastOutgoingSequenceNumber (disconnectFromHost sampleEnv sampleStream) = 7 \<and>
   lastIncomingSequenceNumber (disconnectFromHost sampleEnv sampleStream) = 4 \<and>
   unacknowledgedStanzas
     (snd (sendPacket sampleEnv \<lparr>toXml = ''<iq/>'', isXmppStanza = True\<rparr>
        (disconnectFromHost sampleEnv sampleStream))) = [(3, ''A''), (5, ''B''), (7, ''C'')] \<and>
   unacknowledgedStanzas
     (snd (sendPacket sampleEnv \<lparr>toXml = ''<iq/>'', isXmppStanza = True\<rparr>
        (enableStreamManagement sampleEnv False (disconnectFromHost sampleEnv sampleStream)))) =
     [(3, ''A''), (5, ''B''), (7, ''C''), (8, ''<iq/>'')]"
  using disconnect_disables_management
    [of sampleEnv sampleStream "\<lparr>toXml = ''<iq/>'', isXmppStanza = True\<rparr>"]
  by (simp add: sampleStream_def)

end
